theory Spec2Isabelle
  imports Complex_Main
begin

section \<open>Data model of the map widget\<close>

text \<open>
  The widget is the React component \<open>MapComponent\<close>. Its JavaScript numbers are only
  stored, compared and handed to the mapping library, never computed with, so they are
  modelled as reals.
\<close>

type_synonym number = real

text \<open>\<open>LatLngExpression\<close>, always written as a pair \<open>[lat, lng]\<close> in this file.\<close>

type_synonym LatLngExpression = "number \<times> number"

text \<open>\<open>interface IFeatureProperties { adcode?: number; name?: string }\<close>\<close>

record IFeatureProperties =
  adcode :: "number option"
  name :: "string option"

text \<open>
  A GeoJSON feature as far as the widget reads it: its \<open>properties\<close> bag, which
  GeoJSON allows to be null.
\<close>

record Feature =
  properties :: "IFeatureProperties option"

text \<open>The \<open>id\<close> union type of \<open>ILocation\<close>.\<close>

datatype location_id = Global | China | Zunyi | Yangpu

record ILocation =
  loc_id :: location_id
  label :: string
  coords :: LatLngExpression
  zoom :: number
  areaCode :: "number option"

text \<open>
  \<open>L.PathOptions\<close>, restricted to the five keys this file ever writes. A style object
  may leave keys out (the hover style does), hence the optional fields.
\<close>

record PathOptions =
  fillColor :: "string option"
  weight :: "number option"
  opacity :: "number option"
  color :: "string option"
  fillOpacity :: "number option"

definition defaultStyle :: PathOptions where
  "defaultStyle =
     \<lparr>fillColor = Some ''transparent'', weight = Some 1, opacity = Some 1,
      color = Some ''#333'', fillOpacity = Some 0\<rparr>"

definition highlightStyle :: PathOptions where
  "highlightStyle =
     \<lparr>fillColor = Some ''#ff0000'', weight = Some 2, opacity = Some 1,
      color = Some ''#000'', fillOpacity = Some 0.7\<rparr>"

text \<open>The object literal \<open>{ weight: 2, color: '#666' }\<close> of the \<open>mouseover\<close> handler.\<close>

definition hoverStyle :: PathOptions where
  "hoverStyle =
     \<lparr>fillColor = None, weight = Some 2, opacity = None,
      color = Some ''#666'', fillOpacity = None\<rparr>"

text \<open>
  The labels are non-ASCII; a \<open>string\<close> holds their UTF-8 bytes.
\<close>

definition locations :: "ILocation list" where
  "locations =
     [\<lparr>loc_id = Global,
       label = [CHR 0xE5, CHR 0x85, CHR 0xA8, CHR 0xE7, CHR 0x90, CHR 0x83],
       coords = (35.0, 105.0), zoom = 2, areaCode = None\<rparr>,
      \<lparr>loc_id = China,
       label = [CHR 0xE4, CHR 0xB8, CHR 0xAD, CHR 0xE5, CHR 0x9B, CHR 0xBD],
       coords = (35.8617, 104.1954), zoom = 4, areaCode = None\<rparr>,
      \<lparr>loc_id = Zunyi,
       label = [CHR 0xE9, CHR 0x81, CHR 0xB5, CHR 0xE4, CHR 0xB9, CHR 0x89],
       coords = (27.7274, 106.9723), zoom = 6, areaCode = Some 520300\<rparr>,
      \<lparr>loc_id = Yangpu,
       label = [CHR 0xE6, CHR 0x9D, CHR 0xA8, CHR 0xE6, CHR 0xB5, CHR 0xA6],
       coords = (31.2626, 121.5369), zoom = 8, areaCode = Some 310110\<rparr>]"

subsection \<open>Objects of the mapping library\<close>

text \<open>
  One rendered boundary shape (an \<open>L.Path\<close>): the feature kept on it by
  \<open>onEachFeature\<close> and its current path options.
\<close>

record Layer =
  feature :: "Feature option"
  options :: PathOptions

text \<open>
  The overlay (\<open>L.GeoJSON\<close>) with the \<open>selectedLayer\<close> member the file adds to it.
  A reference to one of its layers is the layer's position in \<open>layers\<close>;
  \<open>eachLayer\<close> visits the layers in that order.
\<close>

record GeoJSON =
  layers :: "Layer list"
  selectedLayer :: "nat option"

text \<open>
  A map instance (\<open>L.Map\<close>) as the widget drives it: the view set at creation, the
  target of the most recent \<open>flyTo\<close>, how often an overlay's \<open>addTo\<close> was invoked on
  it, and whether \<open>remove\<close> has torn it down.
\<close>

record Map_inst =
  view :: "LatLngExpression \<times> number"
  flyTarget :: "(LatLngExpression \<times> number \<times> number) option"
  addToCalls :: nat
  removed :: bool

text \<open>What the \<open>catch\<close> block of \<open>loadGeoJSON\<close> can receive, and the callback's TypeError.\<close>

datatype error =
    FetchRejected
  | LoadFailed
  | JsonParseError
  | InvalidGeoJSON
  | LeafletError
  | TypeError

text \<open>
  The state of one component instance. Map instances live in a store addressed by
  position, because the effect's closures (\<open>loadGeoJSON\<close>, the cleanup) hold the
  instance itself while \<open>mapRef.current\<close> can be cleared independently.
\<close>

record widget =
  mapContainerRef :: bool
  maps :: "Map_inst list"
  mapRef :: "nat option"
  geojsonRef :: "GeoJSON option"
  isMapVisible :: bool
  observing :: bool
  console :: "error list"

section \<open>Operations\<close>

subsection \<open>Styling\<close>

text \<open>
  \<open>Path.setStyle(style)\<close> copies every key present in \<open>style\<close> onto the path's
  options and keeps the others.
\<close>

definition setOptions :: "PathOptions \<Rightarrow> PathOptions \<Rightarrow> PathOptions" where
  "setOptions style old =
     \<lparr>fillColor = (case fillColor style of None \<Rightarrow> fillColor old | Some v \<Rightarrow> Some v),
      weight = (case weight style of None \<Rightarrow> weight old | Some v \<Rightarrow> Some v),
      opacity = (case opacity style of None \<Rightarrow> opacity old | Some v \<Rightarrow> Some v),
      color = (case color style of None \<Rightarrow> color old | Some v \<Rightarrow> Some v),
      fillOpacity = (case fillOpacity style of None \<Rightarrow> fillOpacity old | Some v \<Rightarrow> Some v)\<rparr>"

definition setStyle :: "PathOptions \<Rightarrow> Layer \<Rightarrow> Layer" where
  "setStyle style layer = layer\<lparr>options := setOptions style (options layer)\<rparr>"

text \<open>\<open>GeoJSON.setStyle(style)\<close>: \<open>setStyle\<close> on every layer of the overlay.\<close>

definition setStyle_all :: "PathOptions \<Rightarrow> GeoJSON \<Rightarrow> GeoJSON" where
  "setStyle_all style geojson = geojson\<lparr>layers := map (setStyle style) (layers geojson)\<rparr>"

text \<open>\<open>layer.feature?.properties?.adcode\<close>\<close>

definition layer_adcode :: "Layer \<Rightarrow> number option" where
  "layer_adcode layer =
     (case feature layer of
        None \<Rightarrow> None
      | Some f \<Rightarrow> (case properties f of None \<Rightarrow> None | Some p \<Rightarrow> adcode p))"

text \<open>JavaScript truthiness of an optional number: \<open>undefined\<close> and \<open>0\<close> are falsy.\<close>

definition truthy :: "number option \<Rightarrow> bool" where
  "truthy v = (case v of None \<Rightarrow> False | Some n \<Rightarrow> n \<noteq> 0)"

subsection \<open>Location selection\<close>

text \<open>The body of the \<open>eachLayer\<close> callback in \<open>handleLocationClick\<close>, at layer \<open>i\<close>.\<close>

definition highlight_layer :: "ILocation \<Rightarrow> nat \<Rightarrow> GeoJSON \<Rightarrow> GeoJSON" where
  "highlight_layer location i geojson =
     (let layer = layers geojson ! i;
          adcode = layer_adcode layer
      in if \<not> truthy adcode then geojson
         else if loc_id location = China \<or> adcode = areaCode location
         then geojson\<lparr>layers := (layers geojson)[i := setStyle highlightStyle layer],
                      selectedLayer := Some i\<rparr>
         else geojson)"

definition eachLayer :: "(nat \<Rightarrow> GeoJSON \<Rightarrow> GeoJSON) \<Rightarrow> GeoJSON \<Rightarrow> GeoJSON" where
  "eachLayer f geojson = fold f [0..<length (layers geojson)] geojson"

text \<open>\<open>map.flyTo(coords, zoom, { duration: 1.2 })\<close> on the instance at address \<open>a\<close>.\<close>

definition flyTo :: "nat \<Rightarrow> LatLngExpression \<Rightarrow> number \<Rightarrow> widget \<Rightarrow> widget" where
  "flyTo a c z s =
     s\<lparr>maps := (maps s)[a := (maps s ! a)\<lparr>flyTarget := Some (c, z, 1.2)\<rparr>]\<rparr>"

definition handleLocationClick :: "ILocation \<Rightarrow> widget \<Rightarrow> widget" where
  "handleLocationClick location s =
     (case mapRef s of
        None \<Rightarrow> s
      | Some a \<Rightarrow>
          (case geojsonRef s of
             None \<Rightarrow> s
           | Some geojson \<Rightarrow>
               (let g1 = (setStyle_all defaultStyle geojson)\<lparr>selectedLayer := None\<rparr>;
                    g2 = (if loc_id location \<noteq> Global
                          then eachLayer (highlight_layer location) g1 else g1)
                in flyTo a (coords location) (zoom location) (s\<lparr>geojsonRef := Some g2\<rparr>))))"

subsection \<open>Pointer events on a boundary shape\<close>

text \<open>
  The handlers bound by \<open>onEachFeature\<close>, fired on layer \<open>i\<close> of the stored overlay.
  A shape that is not a layer of the stored overlay is not part of the state, so
  there is nothing to fire on.
\<close>

definition mouseover :: "nat \<Rightarrow> widget \<Rightarrow> widget" where
  "mouseover i s =
     (case geojsonRef s of
        None \<Rightarrow> s
      | Some geojson \<Rightarrow>
          if i < length (layers geojson) \<and> selectedLayer geojson = None
          then s\<lparr>geojsonRef :=
                   Some (geojson\<lparr>layers := (layers geojson)[i := setStyle hoverStyle (layers geojson ! i)]\<rparr>)\<rparr>
          else s)"

definition mouseout :: "nat \<Rightarrow> widget \<Rightarrow> widget" where
  "mouseout i s =
     (case geojsonRef s of
        None \<Rightarrow> s
      | Some geojson \<Rightarrow>
          if i < length (layers geojson) \<and> selectedLayer geojson = None
          then s\<lparr>geojsonRef := Some (setStyle_all defaultStyle geojson)\<rparr>
          else s)"

subsection \<open>Mounting, the geometry fetch and unmounting\<close>

text \<open>The component's first render: \<open>useRef(null)\<close> three times and \<open>useState(true)\<close>.\<close>

definition initial :: widget where
  "initial =
     \<lparr>mapContainerRef = False, maps = [], mapRef = None, geojsonRef = None,
      isMapVisible = True, observing = False, console = []\<rparr>"

text \<open>After the first render React attaches the container element to its ref.\<close>

definition commit :: "widget \<Rightarrow> widget" where
  "commit s = s\<lparr>mapContainerRef := True\<rparr>"

text \<open>
  The map effect up to the first \<open>await\<close> of \<open>loadGeoJSON\<close>. It returns the address of
  the instance it created, which is what the pending fetch and the cleanup close
  over, or \<open>None\<close> when the guard returned early (then there is neither). The
  constructor options and the tile layer enter no later operation and are left out.
\<close>

definition map_effect :: "widget \<Rightarrow> widget \<times> nat option" where
  "map_effect s =
     (if \<not> mapContainerRef s \<or> mapRef s \<noteq> None then (s, None)
      else
        (let a = length (maps s);
             m = \<lparr>view = ((35.8617, 104.1954), 4), flyTarget = None,
                  addToCalls = 0, removed = False\<rparr>
         in (s\<lparr>maps := maps s @ [m], mapRef := Some a\<rparr>, Some a)))"

text \<open>How the request for \<open>/cn.json\<close> can end.\<close>

datatype fetch_outcome =
    Rejected
  | Not_ok
  | Body_not_json
  | Not_geojson
  | Geo_document "Feature list"

text \<open>\<open>L.geoJson(geoData, { style: defaultStyle, onEachFeature: ... })\<close>\<close>

definition geoJson :: "Feature list \<Rightarrow> GeoJSON" where
  "geoJson fs =
     \<lparr>layers = map (\<lambda>f. \<lparr>feature = Some f, options = defaultStyle\<rparr>) fs,
      selectedLayer = None\<rparr>"

text \<open>
  The \<open>try\<close> block of \<open>loadGeoJSON\<close> from the first \<open>await\<close> on, for the map instance
  \<open>a\<close> the closure holds. An exception carries the state it leaves behind. What the
  library's \<open>addTo\<close> does on an instance that was removed is not decided by this
  repository; \<open>strict\<close> says whether it throws there. The address \<open>a\<close> is
  one handed out by \<open>map_effect\<close>, hence below \<open>length (maps s)\<close>.
\<close>

definition loadGeoJSON_try ::
    "bool \<Rightarrow> nat \<Rightarrow> fetch_outcome \<Rightarrow> widget \<Rightarrow> (error \<times> widget) + widget" where
  "loadGeoJSON_try strict a outcome s =
     (case outcome of
        Rejected \<Rightarrow> Inl (FetchRejected, s)
      | Not_ok \<Rightarrow> Inl (LoadFailed, s)
      | Body_not_json \<Rightarrow> Inl (JsonParseError, s)
      | Not_geojson \<Rightarrow> Inl (InvalidGeoJSON, s)
      | Geo_document geoData \<Rightarrow>
          (let geojson = geoJson geoData;
               m = maps s ! a;
               s1 = s\<lparr>maps := (maps s)[a := m\<lparr>addToCalls := Suc (addToCalls m)\<rparr>]\<rparr>
           in if strict \<and> removed m then Inl (LeafletError, s1)
              else Inr (s1\<lparr>geojsonRef := Some geojson\<rparr>)))"

text \<open>\<open>loadGeoJSON\<close> with its \<open>catch\<close>: the error is logged and nothing is rethrown.\<close>

definition loadGeoJSON :: "bool \<Rightarrow> nat \<Rightarrow> fetch_outcome \<Rightarrow> widget \<Rightarrow> widget" where
  "loadGeoJSON strict a outcome s =
     (case loadGeoJSON_try strict a outcome s of
        Inl (e, s') \<Rightarrow> s'\<lparr>console := console s' @ [e]\<rparr>
      | Inr s' \<Rightarrow> s')"

text \<open>The cleanup returned by the map effect: \<open>map.remove(); mapRef.current = null\<close>.\<close>

definition map_cleanup :: "nat \<Rightarrow> widget \<Rightarrow> widget" where
  "map_cleanup a s =
     s\<lparr>maps := (maps s)[a := (maps s ! a)\<lparr>removed := True\<rparr>], mapRef := None\<rparr>"

subsection \<open>Visibility of the button panel\<close>

record IntersectionObserverEntry =
  isIntersecting :: bool
  intersectionRatio :: number

text \<open>
  The observer effect and its cleanup. The callback destructures the first entry of
  the batch it is given; on an empty batch that entry is \<open>undefined\<close> and reading it
  throws.
\<close>

definition observer_effect :: "widget \<Rightarrow> widget" where
  "observer_effect s = (if mapContainerRef s then s\<lparr>observing := True\<rparr> else s)"

definition observer_cleanup :: "widget \<Rightarrow> widget" where
  "observer_cleanup s = (if mapContainerRef s then s\<lparr>observing := False\<rparr> else s)"

definition onIntersection :: "IntersectionObserverEntry list \<Rightarrow> widget \<Rightarrow> error + widget" where
  "onIntersection entries s =
     (case entries of
        [] \<Rightarrow> Inl TypeError
      | entry # _ \<Rightarrow>
          Inr (s\<lparr>isMapVisible := (isIntersecting entry \<and> intersectionRatio entry > 0.5)\<rparr>))"

text \<open>
  The browser's side of the observer. It runs the callback with a batch of entries
  only while the container is under observation (between \<open>observe\<close> and
  \<open>unobserve\<close>); a batch holds the entries queued since the last run, oldest first.
  \<open>deliver_all\<close> runs the callback on successive batches and stops at the first
  exception.
\<close>

definition deliver :: "IntersectionObserverEntry list \<Rightarrow> widget \<Rightarrow> error + widget" where
  "deliver entries s = (if observing s then onIntersection entries s else Inr s)"

fun deliver_all :: "IntersectionObserverEntry list list \<Rightarrow> widget \<Rightarrow> error + widget" where
  "deliver_all [] s = Inr s"
| "deliver_all (entries # batches) s =
     (case deliver entries s of
        Inl e \<Rightarrow> Inl e
      | Inr s' \<Rightarrow> deliver_all batches s')"

subsection \<open>Render output\<close>

text \<open>One button of the panel: its key, its text and the location its click handler passes on.\<close>

record button =
  key :: location_id
  children :: string
  onClick :: ILocation

text \<open>
  The part of the returned element tree that depends on state: the panel is either
  absent from the tree or holds one button per location, in order.
\<close>

record rendered =
  panel :: "button list option"

definition render :: "widget \<Rightarrow> rendered" where
  "render s =
     \<lparr>panel = (if isMapVisible s
               then Some (map (\<lambda>location. \<lparr>key = loc_id location, children = label location,
                                             onClick = location\<rparr>) locations)
               else None)\<rparr>"

text \<open>Mounting: first render, commit, then both effects in source order.\<close>

definition mount :: "widget \<times> nat option" where
  "mount = (let (s, a) = map_effect (commit initial) in (observer_effect s, a))"

text \<open>Unmounting runs the cleanups of both effects, map first.\<close>

definition unmount :: "nat \<Rightarrow> widget \<Rightarrow> widget" where
  "unmount a s = observer_cleanup (map_cleanup a s)"

subsection \<open>Auxiliary notions for the statements\<close>

text \<open>
  The condition under which the \<open>eachLayer\<close> callback of \<open>handleLocationClick\<close>
  restyles a layer: it passed the falsy check on its area code and then the test
  \<open>location.id === 'china' || adcode === location.areaCode\<close>.
\<close>

definition matches :: "ILocation \<Rightarrow> Layer \<Rightarrow> bool" where
  "matches location layer =
     (truthy (layer_adcode layer) \<and>
      (loc_id location = China \<or> layer_adcode layer = areaCode location))"

text \<open>Whether the fetch produced a geometry document, i.e. did not end in the \<open>catch\<close>.\<close>

fun succeeded :: "fetch_outcome \<Rightarrow> bool" where
  "succeeded (Geo_document geoData) = True"
| "succeeded outcome = False"

text \<open>
  A small geometry document used to run the operations on: two shapes with Zunyi's
  code, one with Yangpu's, one without a code, one without properties and one with
  code 0.
\<close>

definition example_features :: "Feature list" where
  "example_features =
     [\<lparr>properties = Some \<lparr>adcode = Some 520300, name = Some ''Zunyi''\<rparr>\<rparr>,
      \<lparr>properties = Some \<lparr>adcode = Some 310110, name = Some ''Yangpu''\<rparr>\<rparr>,
      \<lparr>properties = Some \<lparr>adcode = None, name = Some []\<rparr>\<rparr>,
      \<lparr>properties = Some \<lparr>adcode = Some 520300, name = None\<rparr>\<rparr>,
      \<lparr>properties = None\<rparr>,
      \<lparr>properties = Some \<lparr>adcode = Some 0, name = Some ''zero''\<rparr>\<rparr>]"

text \<open>The widget once mounted, and once the document above has been loaded into it.\<close>

definition mounted :: widget where
  "mounted = fst mount"

definition example_loaded :: widget where
  "example_loaded = loadGeoJSON False 0 (Geo_document example_features) mounted"

text \<open>The same widget after Zunyi has been selected in it.\<close>

definition example_selected :: widget where
  "example_selected = handleLocationClick (locations ! 2) example_loaded"

section \<open>Properties\<close>

subsection \<open>Styles and the selection loop\<close>

lemma setOptions_full [simp]:
  "setOptions defaultStyle old = defaultStyle"
  "setOptions highlightStyle old = highlightStyle"
  by (simp_all add: setOptions_def defaultStyle_def highlightStyle_def)

lemma default_neq_highlight: "defaultStyle \<noteq> highlightStyle"
  by (simp add: defaultStyle_def highlightStyle_def)

lemma setStyle_feature [simp]: "feature (setStyle st l) = feature l"
  by (simp add: setStyle_def)

lemma setStyle_options [simp]: "options (setStyle st l) = setOptions st (options l)"
  by (simp add: setStyle_def)

lemma layer_adcode_setStyle [simp]: "layer_adcode (setStyle st l) = layer_adcode l"
  by (simp add: layer_adcode_def)

lemma highlight_layer_cases:
  "highlight_layer location i g =
     (if matches location (layers g ! i)
      then g\<lparr>layers := (layers g)[i := setStyle highlightStyle (layers g ! i)],
             selectedLayer := Some i\<rparr>
      else g)"
  by (auto simp: highlight_layer_def matches_def Let_def)

text \<open>
  The loop after its first \<open>n\<close> rounds: layers below \<open>n\<close> that match are restyled,
  everything else is as before, and the back-reference is either untouched or one of
  the matching layers below \<open>n\<close>.
\<close>

lemma fold_highlight:
  "n \<le> length (layers g) \<Longrightarrow>
   length (layers (fold (highlight_layer location) [0..<n] g)) = length (layers g) \<and>
   (\<forall>i < length (layers g).
      layers (fold (highlight_layer location) [0..<n] g) ! i =
        (if i < n \<and> matches location (layers g ! i)
         then setStyle highlightStyle (layers g ! i) else layers g ! i)) \<and>
   (selectedLayer (fold (highlight_layer location) [0..<n] g) = selectedLayer g \<or>
    (\<exists>i < n. selectedLayer (fold (highlight_layer location) [0..<n] g) = Some i \<and>
             matches location (layers g ! i)))"
proof (induction n)
  case 0
  then show ?case by simp
next
  case (Suc n)
  let ?g = "fold (highlight_layer location) [0..<n] g"
  from Suc have n: "n < length (layers g)" and IH:
    "length (layers ?g) = length (layers g)"
    "\<forall>i < length (layers g). layers ?g ! i =
        (if i < n \<and> matches location (layers g ! i)
         then setStyle highlightStyle (layers g ! i) else layers g ! i)"
    "selectedLayer ?g = selectedLayer g \<or>
      (\<exists>i < n. selectedLayer ?g = Some i \<and> matches location (layers g ! i))"
    by simp_all
  have at_n: "layers ?g ! n = layers g ! n" using IH(2) n by simp
  have step: "fold (highlight_layer location) [0..<Suc n] g = highlight_layer location n ?g"
    by simp
  show ?case
  proof (cases "matches location (layers g ! n)")
    case True
    then have eq: "fold (highlight_layer location) [0..<Suc n] g =
        ?g\<lparr>layers := (layers ?g)[n := setStyle highlightStyle (layers g ! n)],
            selectedLayer := Some n\<rparr>"
      unfolding step by (simp add: highlight_layer_cases at_n)
    show ?thesis unfolding eq using IH n True
      by (auto simp: nth_list_update less_Suc_eq)
  next
    case False
    then have eq: "fold (highlight_layer location) [0..<Suc n] g = ?g"
      unfolding step by (simp add: highlight_layer_cases at_n)
    show ?thesis unfolding eq using IH n False
      by (auto simp: less_Suc_eq)
  qed
qed

lemma eachLayer_highlight:
  "length (layers (eachLayer (highlight_layer location) g)) = length (layers g)"
  "i < length (layers g) \<Longrightarrow>
     layers (eachLayer (highlight_layer location) g) ! i =
       (if matches location (layers g ! i)
        then setStyle highlightStyle (layers g ! i) else layers g ! i)"
  "selectedLayer (eachLayer (highlight_layer location) g) = Some i \<Longrightarrow>
     selectedLayer g = Some i \<or> (i < length (layers g) \<and> matches location (layers g ! i))"
  using fold_highlight [of "length (layers g)" g location]
  by (auto simp: eachLayer_def)

text \<open>What a selection leaves behind when map and overlay are both there.\<close>

lemma handleLocationClick_loaded:
  assumes "mapRef s = Some a" "geojsonRef s = Some g"
  shows "\<exists>g'. geojsonRef (handleLocationClick location s) = Some g' \<and>
           length (layers g') = length (layers g) \<and>
           (\<forall>i < length (layers g).
              feature (layers g' ! i) = feature (layers g ! i) \<and>
              options (layers g' ! i) =
                (if loc_id location \<noteq> Global \<and> matches location (layers g ! i)
                 then highlightStyle else defaultStyle)) \<and>
           (\<forall>i. selectedLayer g' = Some i \<longrightarrow>
              i < length (layers g) \<and> loc_id location \<noteq> Global \<and>
              matches location (layers g ! i))"
proof -
  let ?g1 = "(setStyle_all defaultStyle g)\<lparr>selectedLayer := None\<rparr>"
  have len1: "length (layers (setStyle_all defaultStyle g)) = length (layers g)"
    by (simp add: setStyle_all_def)
  have nth1: "\<And>i. i < length (layers g) \<Longrightarrow>
      layers (setStyle_all defaultStyle g) ! i = setStyle defaultStyle (layers g ! i)"
    by (simp add: setStyle_all_def)
  have m1: "\<And>i. i < length (layers g) \<Longrightarrow>
      matches location (layers ?g1 ! i) = matches location (layers g ! i)"
    by (simp add: setStyle_all_def matches_def)
  show ?thesis
  proof (cases "loc_id location = Global")
    case True
    then have "geojsonRef (handleLocationClick location s) = Some ?g1"
      using assms by (simp add: handleLocationClick_def flyTo_def)
    then show ?thesis using True len1 nth1 by simp
  next
    case False
    let ?g2 = "eachLayer (highlight_layer location) ?g1"
    have r: "geojsonRef (handleLocationClick location s) = Some ?g2"
      using assms False by (simp add: handleLocationClick_def flyTo_def)
    have a: "length (layers ?g2) = length (layers g)"
      using eachLayer_highlight(1) [of location ?g1] len1 by simp
    have b: "\<forall>i < length (layers g).
              feature (layers ?g2 ! i) = feature (layers g ! i) \<and>
              options (layers ?g2 ! i) =
                (if loc_id location \<noteq> Global \<and> matches location (layers g ! i)
                 then highlightStyle else defaultStyle)"
    proof (intro allI impI)
      fix i assume i: "i < length (layers g)"
      then have "layers ?g2 ! i = (if matches location (layers g ! i)
        then setStyle highlightStyle (layers ?g1 ! i) else layers ?g1 ! i)"
        using eachLayer_highlight(2) [of i ?g1 location] len1 m1 by simp
      then show "feature (layers ?g2 ! i) = feature (layers g ! i) \<and>
              options (layers ?g2 ! i) =
                (if loc_id location \<noteq> Global \<and> matches location (layers g ! i)
                 then highlightStyle else defaultStyle)"
        using False i by (simp add: nth1)
    qed
    have c: "\<forall>i. selectedLayer ?g2 = Some i \<longrightarrow>
              i < length (layers g) \<and> loc_id location \<noteq> Global \<and>
              matches location (layers g ! i)"
    proof (intro allI impI)
      fix i assume "selectedLayer ?g2 = Some i"
      then have "i < length (layers ?g1) \<and> matches location (layers ?g1 ! i)"
        using eachLayer_highlight(3) [of location ?g1 i] by simp
      then show "i < length (layers g) \<and> loc_id location \<noteq> Global \<and>
              matches location (layers g ! i)"
        using False len1 m1 by auto
    qed
    show ?thesis using r a b c by blast
  qed
qed

subsection \<open>The states the statements are run on\<close>

lemma mounted_eq:
  "mounted =
     \<lparr>mapContainerRef = True,
      maps = [\<lparr>view = ((35.8617, 104.1954), 4), flyTarget = None,
               addToCalls = 0, removed = False\<rparr>],
      mapRef = Some 0, geojsonRef = None, isMapVisible = True, observing = True,
      console = []\<rparr>"
  "snd mount = Some 0"
  by (simp_all add: mounted_def mount_def map_effect_def commit_def initial_def
        observer_effect_def Let_def)

lemma example_loaded_refs:
  "mapRef example_loaded = Some 0"
  "geojsonRef example_loaded = Some (geoJson example_features)"
  by (simp_all add: example_loaded_def loadGeoJSON_def loadGeoJSON_try_def mounted_eq Let_def)

subsection \<open>Selection before the widget is ready\<close>

text \<open>
  Claim C7. If the map instance or the overlay layer is not there yet (either
  reference is still null), \<open>handleLocationClick\<close> returns at its guard for every
  location: the whole widget state, and with it every style, the back-reference and
  the viewport of every map instance, is exactly what it was. The operation has no
  failing branch at all.
\<close>

theorem select_before_ready_is_noop:
  "mapRef s = None \<or> geojsonRef s = None \<Longrightarrow> handleLocationClick location s = s"
  by (auto simp: handleLocationClick_def split: option.splits)

theorem select_before_ready_is_noop_witness:
  "geojsonRef mounted = None \<and> mapRef mounted = Some 0 \<and>
   handleLocationClick (locations ! 2) mounted = mounted \<and>
   mapRef initial = None \<and> handleLocationClick (locations ! 1) initial = initial"
  using select_before_ready_is_noop [of mounted "locations ! 2"]
        select_before_ready_is_noop [of initial "locations ! 1"]
  by (simp add: mounted_eq initial_def)


subsection \<open>The example document and the presets\<close>

lemma example_layers:
  "length (layers (geoJson example_features)) = 6"
  "layer_adcode (layers (geoJson example_features) ! 0) = Some 520300"
  "layer_adcode (layers (geoJson example_features) ! Suc 0) = Some 310110"
  "layer_adcode (layers (geoJson example_features) ! 2) = None"
  "layer_adcode (layers (geoJson example_features) ! 3) = Some 520300"
  "layer_adcode (layers (geoJson example_features) ! 4) = None"
  "layer_adcode (layers (geoJson example_features) ! 5) = Some 0"
  by (simp_all add: geoJson_def example_features_def layer_adcode_def)

lemma locations_nth:
  "loc_id (locations ! 0) = Global" "loc_id (locations ! Suc 0) = China"
  "loc_id (locations ! 2) = Zunyi" "loc_id (locations ! 3) = Yangpu"
  "areaCode (locations ! 0) = None" "areaCode (locations ! Suc 0) = None"
  "areaCode (locations ! 2) = Some 520300" "areaCode (locations ! 3) = Some 310110"
  "locations ! 0 \<in> set locations" "locations ! Suc 0 \<in> set locations"
  "locations ! 2 \<in> set locations" "locations ! 3 \<in> set locations"
  by (simp_all add: locations_def)

subsection \<open>Shapes without an area code\<close>

text \<open>
  Claim C9. For every location (the country preset included), a boundary shape whose
  \<open>adcode\<close> is absent or equal to 0 fails the falsy check of the loop before the
  country/region test is reached: after \<open>handleLocationClick\<close> it carries the default
  style, not the selected one, and it is not the recorded back-reference.
\<close>

theorem falsy_adcode_never_selected:
  assumes "mapRef s = Some a" and "geojsonRef s = Some g" and "i < length (layers g)"
    and "layer_adcode (layers g ! i) = None \<or> layer_adcode (layers g ! i) = Some 0"
  shows "\<exists>g'. geojsonRef (handleLocationClick location s) = Some g' \<and>
           i < length (layers g') \<and>
           feature (layers g' ! i) = feature (layers g ! i) \<and>
           options (layers g' ! i) = defaultStyle \<and>
           options (layers g' ! i) \<noteq> highlightStyle \<and>
           selectedLayer g' \<noteq> Some i"
proof -
  from assms(4) have nm: "\<not> matches location (layers g ! i)"
    by (auto simp: matches_def truthy_def)
  from handleLocationClick_loaded [OF assms(1,2), of location] obtain g' where
    g': "geojsonRef (handleLocationClick location s) = Some g'"
      "length (layers g') = length (layers g)"
      "\<forall>i < length (layers g).
              feature (layers g' ! i) = feature (layers g ! i) \<and>
              options (layers g' ! i) =
                (if loc_id location \<noteq> Global \<and> matches location (layers g ! i)
                 then highlightStyle else defaultStyle)"
      "\<forall>i. selectedLayer g' = Some i \<longrightarrow>
              i < length (layers g) \<and> loc_id location \<noteq> Global \<and>
              matches location (layers g ! i)"
    by blast
  from g'(3) assms(3) nm have "feature (layers g' ! i) = feature (layers g ! i)"
    "options (layers g' ! i) = defaultStyle" by simp_all
  moreover from g'(4) nm have "selectedLayer g' \<noteq> Some i" by blast
  ultimately show ?thesis using g'(1,2) assms(3) default_neq_highlight by simp
qed

text \<open>On the example document: the shape without a code and the shape with code 0, under the country preset.\<close>

theorem falsy_adcode_never_selected_witness:
  "options (layers (the (geojsonRef (handleLocationClick (locations ! 1) example_loaded))) ! 2) = defaultStyle \<and>
   selectedLayer (the (geojsonRef (handleLocationClick (locations ! 1) example_loaded))) \<noteq> Some 2 \<and>
   options (layers (the (geojsonRef (handleLocationClick (locations ! 1) example_loaded))) ! 5) \<noteq> highlightStyle \<and>
   selectedLayer (the (geojsonRef (handleLocationClick (locations ! 1) example_loaded))) \<noteq> Some 5 \<and>
   layer_adcode (layers (geoJson example_features) ! 2) = None \<and>
   layer_adcode (layers (geoJson example_features) ! 5) = Some 0"
  using falsy_adcode_never_selected [OF example_loaded_refs, of 2 "locations ! Suc 0"]
        falsy_adcode_never_selected [OF example_loaded_refs, of 5 "locations ! Suc 0"]
  by (auto simp: example_layers)

subsection \<open>The country preset\<close>

text \<open>
  Claim C2, as amended. With map and overlay loaded, selecting the country preset
  gives the selected style to every boundary shape whose area code is present and
  non-zero, all in the same call; a shape without such a code is skipped by the falsy
  check and is left in the default style.
\<close>

theorem country_highlights_coded_features:
  assumes "loc_id location = China" and "mapRef s = Some a" and "geojsonRef s = Some g"
  shows "\<exists>g'. geojsonRef (handleLocationClick location s) = Some g' \<and>
           length (layers g') = length (layers g) \<and>
           (\<forall>i < length (layers g).
              feature (layers g' ! i) = feature (layers g ! i) \<and>
              options (layers g' ! i) =
                (if truthy (layer_adcode (layers g ! i)) then highlightStyle else defaultStyle))"
  using handleLocationClick_loaded [OF assms(2,3), of location] assms(1)
  by (auto simp: matches_def)

text \<open>On the example document the three coded shapes are selected and the one without properties is not.\<close>

theorem country_highlights_coded_features_witness:
  "loc_id (locations ! 1) = China \<and>
   options (layers (the (geojsonRef (handleLocationClick (locations ! 1) example_loaded))) ! 0) = highlightStyle \<and>
   options (layers (the (geojsonRef (handleLocationClick (locations ! 1) example_loaded))) ! 1) = highlightStyle \<and>
   options (layers (the (geojsonRef (handleLocationClick (locations ! 1) example_loaded))) ! 3) = highlightStyle \<and>
   options (layers (the (geojsonRef (handleLocationClick (locations ! 1) example_loaded))) ! 4) = defaultStyle"
proof -
  from country_highlights_coded_features [OF locations_nth(2) example_loaded_refs]
  obtain g' where r: "geojsonRef (handleLocationClick (locations ! Suc 0) example_loaded) = Some g'"
    and sty: "\<forall>i < length (layers (geoJson example_features)).
              feature (layers g' ! i) = feature (layers (geoJson example_features) ! i) \<and>
              options (layers g' ! i) =
                (if truthy (layer_adcode (layers (geoJson example_features) ! i))
                 then highlightStyle else defaultStyle)"
    by blast
  from sty [rule_format, of 0] sty [rule_format, of "Suc 0"] sty [rule_format, of 3]
    sty [rule_format, of 4] r
  show ?thesis by (simp add: example_layers locations_nth truthy_def)
qed

text \<open>
  Claim C2 as stated fails: in the example document the third shape has no area code,
  and after the country preset is selected it is in the default style, which is not
  the selected style.
\<close>

theorem country_skips_codeless_feature:
  "loc_id (locations ! 1) = China \<and>
   geojsonRef example_loaded = Some (geoJson example_features) \<and>
   layer_adcode (layers (geoJson example_features) ! 2) = None \<and>
   options (layers (the (geojsonRef (handleLocationClick (locations ! 1) example_loaded))) ! 2) = defaultStyle \<and>
   options (layers (the (geojsonRef (handleLocationClick (locations ! 1) example_loaded))) ! 2) \<noteq> highlightStyle"
proof -
  from handleLocationClick_loaded [OF example_loaded_refs, of "locations ! Suc 0"]
  obtain g' where r: "geojsonRef (handleLocationClick (locations ! Suc 0) example_loaded) = Some g'"
    and sty: "\<forall>i < length (layers (geoJson example_features)).
              feature (layers g' ! i) = feature (layers (geoJson example_features) ! i) \<and>
              options (layers g' ! i) =
                (if loc_id (locations ! Suc 0) \<noteq> Global \<and>
                    matches (locations ! Suc 0) (layers (geoJson example_features) ! i)
                 then highlightStyle else defaultStyle)"
    by blast
  from sty [rule_format, of 2] r
  show ?thesis
    by (simp add: example_layers example_loaded_refs locations_nth matches_def truthy_def
          default_neq_highlight)
qed

subsection \<open>The regional presets\<close>

text \<open>
  Claim C3. For every preset of \<open>locations\<close> other than the country and the global
  one, with map and overlay loaded, \<open>handleLocationClick\<close> leaves a shape in the
  selected style if its area code equals the preset's \<open>areaCode\<close> and in the default
  style otherwise; every shape with that code is selected, not only the first, so the
  selected shapes are exactly the shapes with the preset's code.
\<close>

theorem region_highlights_exactly_matching:
  assumes "location \<in> set locations" and "loc_id location \<noteq> China"
    and "loc_id location \<noteq> Global" and "mapRef s = Some a" and "geojsonRef s = Some g"
  shows "\<exists>g'. geojsonRef (handleLocationClick location s) = Some g' \<and>
           length (layers g') = length (layers g) \<and>
           (\<forall>i < length (layers g).
              feature (layers g' ! i) = feature (layers g ! i) \<and>
              options (layers g' ! i) =
                (if layer_adcode (layers g ! i) = areaCode location
                 then highlightStyle else defaultStyle)) \<and>
           {i. i < length (layers g') \<and> options (layers g' ! i) = highlightStyle} =
           {i. i < length (layers g) \<and> layer_adcode (layers g ! i) = areaCode location}"
proof -
  from assms(1-3) have t: "truthy (areaCode location)"
    by (auto simp: locations_def truthy_def)
  then have m: "\<And>l. matches location l \<longleftrightarrow> layer_adcode l = areaCode location"
    using assms(2) by (auto simp: matches_def)
  from handleLocationClick_loaded [OF assms(4,5), of location] obtain g' where
    g': "geojsonRef (handleLocationClick location s) = Some g'"
      "length (layers g') = length (layers g)"
      "\<forall>i < length (layers g).
              feature (layers g' ! i) = feature (layers g ! i) \<and>
              options (layers g' ! i) =
                (if loc_id location \<noteq> Global \<and> matches location (layers g ! i)
                 then highlightStyle else defaultStyle)"
    by blast
  have a: "\<forall>i < length (layers g).
              feature (layers g' ! i) = feature (layers g ! i) \<and>
              options (layers g' ! i) =
                (if layer_adcode (layers g ! i) = areaCode location
                 then highlightStyle else defaultStyle)"
    using g'(3) assms(3) m by simp
  have b: "{i. i < length (layers g') \<and> options (layers g' ! i) = highlightStyle} =
           {i. i < length (layers g) \<and> layer_adcode (layers g ! i) = areaCode location}"
    using a g'(2) default_neq_highlight by (auto split: if_splits)
  show ?thesis using g'(1,2) a b by blast
qed

text \<open>On the example document Zunyi's code occurs twice: both shapes are selected, the others are default.\<close>

theorem region_highlights_exactly_matching_witness:
  "loc_id (locations ! 2) = Zunyi \<and>
   options (layers (the (geojsonRef (handleLocationClick (locations ! 2) example_loaded))) ! 0) = highlightStyle \<and>
   options (layers (the (geojsonRef (handleLocationClick (locations ! 2) example_loaded))) ! 1) = defaultStyle \<and>
   options (layers (the (geojsonRef (handleLocationClick (locations ! 2) example_loaded))) ! 2) = defaultStyle \<and>
   options (layers (the (geojsonRef (handleLocationClick (locations ! 2) example_loaded))) ! 3) = highlightStyle"
proof -
  have "loc_id (locations ! 2) \<noteq> China" "loc_id (locations ! 2) \<noteq> Global"
    by (simp_all add: locations_nth)
  from region_highlights_exactly_matching [OF locations_nth(11) this example_loaded_refs]
  obtain g' where r: "geojsonRef (handleLocationClick (locations ! 2) example_loaded) = Some g'"
    and sty: "\<forall>i < length (layers (geoJson example_features)).
              feature (layers g' ! i) = feature (layers (geoJson example_features) ! i) \<and>
              options (layers g' ! i) =
                (if layer_adcode (layers (geoJson example_features) ! i) = areaCode (locations ! 2)
                 then highlightStyle else defaultStyle)"
    by blast
  from sty [rule_format, of 0] sty [rule_format, of "Suc 0"] sty [rule_format, of 2]
    sty [rule_format, of 3] r
  show ?thesis by (simp add: example_layers locations_nth)
qed

subsection \<open>Hovering\<close>

lemma example_selected_refs:
  "mapRef example_selected = Some 0"
  "geojsonRef example_selected = Some (the (geojsonRef example_selected))"
  "selectedLayer (the (geojsonRef example_selected)) = Some 3"
  "length (layers (the (geojsonRef example_selected))) = 6"
  by code_simp+

lemma setStyle_all_default_twice:
  "setStyle_all defaultStyle ((setStyle_all defaultStyle g)\<lparr>selectedLayer := x\<rparr>) =
   (setStyle_all defaultStyle g)\<lparr>selectedLayer := x\<rparr>"
  by (simp add: setStyle_all_def setStyle_def)

text \<open>
  Claim C4. Whenever the back-reference \<open>selectedLayer\<close> of the stored overlay is
  non-null, \<open>mouseover\<close> on any shape and \<open>mouseout\<close> on any shape leave the whole
  widget state, hence every style, unchanged. And a selection starts from a clean
  overlay: its result is the result of the same selection on the overlay with every
  shape reset to the default style and the back-reference cleared, so afterwards each
  shape is in the selected style if the new location matches it and in the default
  style otherwise, whatever it carried before.
\<close>

theorem hover_suppressed_while_selected:
  assumes "geojsonRef s = Some g"
  shows "(selectedLayer g \<noteq> None \<longrightarrow> mouseover i s = s \<and> mouseout i s = s) \<and>
     (mapRef s = Some a \<longrightarrow>
        handleLocationClick location s =
          handleLocationClick location
            (s\<lparr>geojsonRef := Some ((setStyle_all defaultStyle g)\<lparr>selectedLayer := None\<rparr>)\<rparr>) \<and>
        (\<exists>g'. geojsonRef (handleLocationClick location s) = Some g' \<and>
              length (layers g') = length (layers g) \<and>
              (\<forall>k < length (layers g).
                 options (layers g' ! k) =
                   (if loc_id location \<noteq> Global \<and> matches location (layers g ! k)
                    then highlightStyle else defaultStyle))))"
proof (intro conjI impI)
  assume "selectedLayer g \<noteq> None"
  with assms show "mouseover i s = s" "mouseout i s = s"
    by (auto simp: mouseover_def mouseout_def)
next
  assume a: "mapRef s = Some a"
  show "handleLocationClick location s =
        handleLocationClick location
          (s\<lparr>geojsonRef := Some ((setStyle_all defaultStyle g)\<lparr>selectedLayer := None\<rparr>)\<rparr>)"
    using a assms by (simp add: handleLocationClick_def setStyle_all_default_twice flyTo_def)
  from handleLocationClick_loaded [OF a assms, of location]
  show "\<exists>g'. geojsonRef (handleLocationClick location s) = Some g' \<and>
              length (layers g') = length (layers g) \<and>
              (\<forall>k < length (layers g).
                 options (layers g' ! k) =
                   (if loc_id location \<noteq> Global \<and> matches location (layers g ! k)
                    then highlightStyle else defaultStyle))"
    by blast
qed

text \<open>
  With Zunyi selected in the example (back-reference on the fourth shape), hovering
  the second shape changes nothing, and selecting Yangpu next starts from the reset
  overlay.
\<close>

theorem hover_suppressed_while_selected_witness:
  "selectedLayer (the (geojsonRef example_selected)) = Some 3 \<and>
   mouseover 1 example_selected = example_selected \<and>
   mouseout 1 example_selected = example_selected \<and>
   handleLocationClick (locations ! 3) example_selected =
     handleLocationClick (locations ! 3)
       (example_selected\<lparr>geojsonRef :=
          Some ((setStyle_all defaultStyle (the (geojsonRef example_selected)))
                  \<lparr>selectedLayer := None\<rparr>)\<rparr>)"
  using hover_suppressed_while_selected [OF example_selected_refs(2), of 1 0 "locations ! 3"]
  by (simp add: example_selected_refs(1,3))

text \<open>
  Claim C8. While the back-reference is null, \<open>mouseover\<close> on a shape merges the hover
  style (weight 2, colour \<open>#666\<close>) into that shape's options and leaves every other
  shape and the rest of the state as they are; \<open>mouseout\<close> puts every shape of the
  overlay into the default style, also right after the \<open>mouseover\<close>.
\<close>

theorem hover_when_nothing_selected:
  assumes "geojsonRef s = Some g" and "selectedLayer g = None" and "i < length (layers g)"
  shows "(\<exists>g'. mouseover i s = s\<lparr>geojsonRef := Some g'\<rparr> \<and>
            length (layers g') = length (layers g) \<and> selectedLayer g' = None \<and>
            feature (layers g' ! i) = feature (layers g ! i) \<and>
            options (layers g' ! i) = setOptions hoverStyle (options (layers g ! i)) \<and>
            weight (options (layers g' ! i)) = Some 2 \<and>
            color (options (layers g' ! i)) = Some ''#666'' \<and>
            (\<forall>j < length (layers g). j \<noteq> i \<longrightarrow> layers g' ! j = layers g ! j)) \<and>
         (\<exists>g'. mouseout i s = s\<lparr>geojsonRef := Some g'\<rparr> \<and>
            length (layers g') = length (layers g) \<and> selectedLayer g' = None \<and>
            (\<forall>j < length (layers g).
               feature (layers g' ! j) = feature (layers g ! j) \<and>
               options (layers g' ! j) = defaultStyle)) \<and>
         (\<exists>g'. geojsonRef (mouseout i (mouseover i s)) = Some g' \<and>
            length (layers g') = length (layers g) \<and>
            (\<forall>j < length (layers g). options (layers g' ! j) = defaultStyle))"
proof (intro conjI)
  let ?g1 = "g\<lparr>layers := (layers g)[i := setStyle hoverStyle (layers g ! i)]\<rparr>"
  have over: "mouseover i s = s\<lparr>geojsonRef := Some ?g1\<rparr>"
    using assms by (simp add: mouseover_def)
  show "\<exists>g'. mouseover i s = s\<lparr>geojsonRef := Some g'\<rparr> \<and>
            length (layers g') = length (layers g) \<and> selectedLayer g' = None \<and>
            feature (layers g' ! i) = feature (layers g ! i) \<and>
            options (layers g' ! i) = setOptions hoverStyle (options (layers g ! i)) \<and>
            weight (options (layers g' ! i)) = Some 2 \<and>
            color (options (layers g' ! i)) = Some ''#666'' \<and>
            (\<forall>j < length (layers g). j \<noteq> i \<longrightarrow> layers g' ! j = layers g ! j)"
    using over assms(2,3)
    by (intro exI [of _ ?g1]) (simp add: setOptions_def hoverStyle_def)
  have out: "mouseout i s = s\<lparr>geojsonRef := Some (setStyle_all defaultStyle g)\<rparr>"
    using assms by (simp add: mouseout_def)
  show "\<exists>g'. mouseout i s = s\<lparr>geojsonRef := Some g'\<rparr> \<and>
            length (layers g') = length (layers g) \<and> selectedLayer g' = None \<and>
            (\<forall>j < length (layers g).
               feature (layers g' ! j) = feature (layers g ! j) \<and>
               options (layers g' ! j) = defaultStyle)"
    using out assms(2)
    by (intro exI [of _ "setStyle_all defaultStyle g"]) (simp add: setStyle_all_def)
  have "mouseout i (mouseover i s) =
      s\<lparr>geojsonRef := Some (setStyle_all defaultStyle ?g1)\<rparr>"
    using assms by (simp add: over mouseout_def)
  then show "\<exists>g'. geojsonRef (mouseout i (mouseover i s)) = Some g' \<and>
            length (layers g') = length (layers g) \<and>
            (\<forall>j < length (layers g). options (layers g' ! j) = defaultStyle)"
    by (intro exI [of _ "setStyle_all defaultStyle ?g1"]) (simp add: setStyle_all_def)
qed

text \<open>Hovering the third shape of the freshly loaded example, then leaving it.\<close>

theorem hover_when_nothing_selected_witness:
  "selectedLayer (geoJson example_features) = None \<and>
   options (layers (the (geojsonRef (mouseover 2 example_loaded))) ! 2) =
     \<lparr>fillColor = Some ''transparent'', weight = Some 2, opacity = Some 1,
      color = Some ''#666'', fillOpacity = Some 0\<rparr> \<and>
   layers (the (geojsonRef (mouseover 2 example_loaded))) ! 3 =
     layers (geoJson example_features) ! 3 \<and>
   options (layers (the (geojsonRef (mouseout 2 (mouseover 2 example_loaded)))) ! 2) = defaultStyle"
proof -
  have n: "selectedLayer (geoJson example_features) = None" by (simp add: geoJson_def)
  have i: "2 < length (layers (geoJson example_features))" by (simp add: example_layers)
  from hover_when_nothing_selected [OF example_loaded_refs(2) n i]
  obtain g1 g3 where
    g1: "mouseover 2 example_loaded = example_loaded\<lparr>geojsonRef := Some g1\<rparr>"
      "options (layers g1 ! 2) =
         setOptions hoverStyle (options (layers (geoJson example_features) ! 2))"
      "\<forall>j < length (layers (geoJson example_features)).
         j \<noteq> 2 \<longrightarrow> layers g1 ! j = layers (geoJson example_features) ! j"
    and g3: "geojsonRef (mouseout 2 (mouseover 2 example_loaded)) = Some g3"
      "\<forall>j < length (layers (geoJson example_features)). options (layers g3 ! j) = defaultStyle"
    by blast
  have o: "options (layers (geoJson example_features) ! 2) = defaultStyle"
    by (simp add: geoJson_def example_features_def)
  from g1(3) [rule_format, of 3] g3(2) [rule_format, of 2] g1(1,2) g3(1) n o
  show ?thesis
    by (simp add: example_layers setOptions_def hoverStyle_def defaultStyle_def)
qed


subsection \<open>The viewport and the fetch\<close>

text \<open>With map and overlay loaded, a selection issues the fly-to to the location's target.\<close>

lemma select_loaded_flies:
  assumes "mapRef s = Some a" and "geojsonRef s = Some g" and "a < length (maps s)"
  shows "flyTarget (maps (handleLocationClick location s) ! a) =
           Some (coords location, zoom location, 1.2)"
  using assms by (simp add: handleLocationClick_def flyTo_def Let_def)

text \<open>Every way the fetch can fail ends in the \<open>catch\<close>, with the state as it was.\<close>

lemma failed_outcome_caught:
  assumes "\<not> succeeded outcome"
  shows "\<exists>e. loadGeoJSON_try strict a outcome s = Inl (e, s) \<and>
             loadGeoJSON strict a outcome s = s\<lparr>console := console s @ [e]\<rparr>"
  using assms by (cases outcome) (simp_all add: loadGeoJSON_def loadGeoJSON_try_def)

subsection \<open>The button panel\<close>

text \<open>Deliveries while the container is observed, and once it no longer is.\<close>

lemma deliver_observed:
  "observing s \<Longrightarrow>
   deliver (entry # rest) s =
     Inr (s\<lparr>isMapVisible := (isIntersecting entry \<and> intersectionRatio entry > 0.5)\<rparr>)"
  by (simp add: deliver_def onIntersection_def)

lemma deliver_all_observed:
  "observing s \<Longrightarrow> \<forall>b \<in> set batches. b \<noteq> [] \<Longrightarrow>
   \<exists>s'. deliver_all batches s = Inr s' \<and> observing s'"
proof (induction batches arbitrary: s)
  case Nil
  then show ?case by simp
next
  case (Cons b batches)
  then obtain entry rest where b: "b = entry # rest" by (cases b) auto
  let ?s1 = "s\<lparr>isMapVisible := (isIntersecting entry \<and> intersectionRatio entry > 0.5)\<rparr>"
  have "observing ?s1" using Cons.prems(1) by simp
  moreover have "\<forall>b \<in> set batches. b \<noteq> []" using Cons.prems(2) by simp
  ultimately obtain s' where "deliver_all batches ?s1 = Inr s' \<and> observing s'"
    using Cons.IH by blast
  then show ?case using Cons.prems(1) by (simp add: b deliver_observed)
qed

lemma deliver_all_snoc:
  "deliver_all (batches @ [b]) s =
     (case deliver_all batches s of Inl e \<Rightarrow> Inl e | Inr s' \<Rightarrow> deliver b s')"
  by (induction batches arbitrary: s) (auto split: sum.splits)

lemma deliver_all_unobserved:
  "\<not> observing s \<Longrightarrow> deliver_all batches s = Inr s"
  by (induction batches) (simp_all add: deliver_def)

lemma mounted_observed:
  "mounted = observer_effect (fst (map_effect (commit initial)))"
  "mapContainerRef (fst (map_effect (commit initial)))"
  by (simp_all add: mounted_def mount_def split_def map_effect_def commit_def initial_def Let_def)

text \<open>
  Claim C6, as amended. Once the observer effect has put the container under
  observation, the panel is rendered as before (initially: present) until a callback
  runs. After any run of delivered batches, the panel is present in the render output
  if and only if the first entry of the last batch, which is the entry the callback
  reads, is intersecting with a ratio strictly greater than 50%; when that entry's
  ratio is at or below 50% the panel is absent from the output, not merely hidden.
  After the cleanup has stopped the observation no delivery changes the widget.
\<close>

theorem panel_follows_observed_entry:
  assumes "mapContainerRef s" and "\<forall>b \<in> set batches. b \<noteq> []"
  shows "(\<exists>s'. deliver_all (batches @ [entry # rest]) (observer_effect s) = Inr s' \<and>
            (panel (render s') \<noteq> None) =
              (isIntersecting entry \<and> intersectionRatio entry > 0.5) \<and>
            (intersectionRatio entry \<le> 0.5 \<longrightarrow> panel (render s') = None)) \<and>
         panel (render (observer_effect s)) = panel (render s) \<and>
         deliver_all batches (observer_cleanup (observer_effect s)) =
           Inr (observer_cleanup (observer_effect s))"
proof (intro conjI)
  have o: "observing (observer_effect s)" using assms(1) by (simp add: observer_effect_def)
  from deliver_all_observed [OF o assms(2)] obtain s1 where
    s1: "deliver_all batches (observer_effect s) = Inr s1" "observing s1" by blast
  let ?s' = "s1\<lparr>isMapVisible := (isIntersecting entry \<and> intersectionRatio entry > 0.5)\<rparr>"
  have "deliver_all (batches @ [entry # rest]) (observer_effect s) = Inr ?s'"
    using s1 by (simp add: deliver_all_snoc deliver_observed)
  moreover have "(panel (render ?s') \<noteq> None) =
      (isIntersecting entry \<and> intersectionRatio entry > 0.5)"
    by (simp add: render_def)
  moreover have "intersectionRatio entry \<le> 0.5 \<longrightarrow> panel (render ?s') = None"
    by (simp add: render_def)
  ultimately show "\<exists>s'. deliver_all (batches @ [entry # rest]) (observer_effect s) = Inr s' \<and>
            (panel (render s') \<noteq> None) =
              (isIntersecting entry \<and> intersectionRatio entry > 0.5) \<and>
            (intersectionRatio entry \<le> 0.5 \<longrightarrow> panel (render s') = None)"
    by blast
  show "panel (render (observer_effect s)) = panel (render s)"
    by (simp add: observer_effect_def render_def)
  have "\<not> observing (observer_cleanup (observer_effect s))"
    using assms(1) by (simp add: observer_cleanup_def observer_effect_def)
  then show "deliver_all batches (observer_cleanup (observer_effect s)) =
           Inr (observer_cleanup (observer_effect s))"
    by (rule deliver_all_unobserved)
qed

text \<open>
  On the mounted widget: out of view then 80% visible; 80% visible then exactly 50%;
  and a delivery after the observation has stopped.
\<close>

theorem panel_follows_observed_entry_witness:
  "observing mounted \<and>
   panel (render (projr (deliver_all
      [[\<lparr>isIntersecting = False, intersectionRatio = 0\<rparr>],
       [\<lparr>isIntersecting = True, intersectionRatio = 0.8\<rparr>]] mounted))) \<noteq> None \<and>
   panel (render (projr (deliver_all
      [[\<lparr>isIntersecting = True, intersectionRatio = 0.8\<rparr>],
       [\<lparr>isIntersecting = True, intersectionRatio = 0.5\<rparr>]] mounted))) = None \<and>
   deliver_all [[\<lparr>isIntersecting = False, intersectionRatio = 0\<rparr>]]
      (observer_cleanup mounted) = Inr (observer_cleanup mounted)"
proof -
  let ?out = "\<lparr>isIntersecting = False, intersectionRatio = 0\<rparr>"
  let ?most = "\<lparr>isIntersecting = True, intersectionRatio = 0.8\<rparr>"
  let ?half = "\<lparr>isIntersecting = True, intersectionRatio = 0.5\<rparr>"
  have ne: "\<forall>b \<in> set [[?out]]. b \<noteq> []" "\<forall>b \<in> set [[?most]]. b \<noteq> []" by simp_all
  from panel_follows_observed_entry [OF mounted_observed(2) ne(1), of ?most "[]"]
  have a: "panel (render (projr (deliver_all [[?out], [?most]] mounted))) \<noteq> None"
    "deliver_all [[?out]] (observer_cleanup mounted) = Inr (observer_cleanup mounted)"
    by (auto simp: mounted_observed(1) [symmetric])
  from panel_follows_observed_entry [OF mounted_observed(2) ne(2), of ?half "[]"]
  have b: "panel (render (projr (deliver_all [[?most], [?half]] mounted))) = None"
    by (auto simp: mounted_observed(1) [symmetric])
  show ?thesis using a b by (simp add: mounted_eq)
qed

text \<open>
  Claim C6 as stated fails. The mounted widget renders the panel before any ratio has
  been delivered, also when the container is out of view: only the first callback,
  reporting ratio 0, takes the panel away. And when one batch holds two entries, the
  container entering the viewport and then leaving it, ratio 0 has been delivered but
  the callback reads the first entry only and the panel stays rendered.
\<close>

theorem panel_shown_without_matching_ratio:
  "observing mounted \<and>
   panel (render mounted) \<noteq> None \<and>
   deliver [\<lparr>isIntersecting = False, intersectionRatio = 0\<rparr>] mounted =
     Inr (mounted\<lparr>isMapVisible := False\<rparr>) \<and>
   panel (render (mounted\<lparr>isMapVisible := False\<rparr>)) = None \<and>
   deliver [\<lparr>isIntersecting = True, intersectionRatio = 1\<rparr>,
            \<lparr>isIntersecting = False, intersectionRatio = 0\<rparr>] mounted = Inr mounted \<and>
   intersectionRatio \<lparr>isIntersecting = False, intersectionRatio = 0\<rparr> \<le> 0.5"
  by (simp add: mounted_eq deliver_def onIntersection_def render_def)

text \<open>
  Claim C10. The visibility flag starts as true: the panel is in the output of the
  first render and is still there once the widget is mounted, before any callback of
  the intersection observer; no intersection ratio enters either state. The panel
  holds one button per location, in order.
\<close>

theorem panel_rendered_on_mount:
  "isMapVisible initial \<and> panel (render initial) \<noteq> None \<and>
   isMapVisible mounted \<and> panel (render mounted) \<noteq> None \<and>
   map onClick (the (panel (render mounted))) = locations"
  by (simp add: initial_def mounted_eq render_def locations_def)

subsection \<open>A failed geometry fetch\<close>

text \<open>
  Claim C1, as amended. If the geometry fetch fails (rejected request, non-success
  response, body that does not parse, or not a geometry document), the exception is
  caught and logged, nothing else changes, the render output is what it was (so the
  button panel still renders), and the overlay reference stays null; calling
  \<open>handleLocationClick\<close> with any location then raises nothing and is a no-op: the
  guard returns before the fly-to, and the viewport is left as it was.
\<close>

theorem fetch_failure_leaves_buttons_inert:
  assumes "\<not> succeeded outcome" and "geojsonRef s = None"
  shows "\<exists>e. loadGeoJSON_try strict a outcome s = Inl (e, s) \<and>
             loadGeoJSON strict a outcome s = s\<lparr>console := console s @ [e]\<rparr> \<and>
             render (loadGeoJSON strict a outcome s) = render s \<and>
             geojsonRef (loadGeoJSON strict a outcome s) = None \<and>
             handleLocationClick location (loadGeoJSON strict a outcome s) =
               loadGeoJSON strict a outcome s"
proof -
  from failed_outcome_caught [OF assms(1), of strict a s] obtain e where
    e: "loadGeoJSON_try strict a outcome s = Inl (e, s)"
       "loadGeoJSON strict a outcome s = s\<lparr>console := console s @ [e]\<rparr>"
    by blast
  have "render (loadGeoJSON strict a outcome s) = render s"
    by (simp add: e(2) render_def)
  moreover have n: "geojsonRef (loadGeoJSON strict a outcome s) = None"
    using assms(2) by (simp add: e(2))
  moreover have "handleLocationClick location (loadGeoJSON strict a outcome s) =
               loadGeoJSON strict a outcome s"
    using n by (simp add: handleLocationClick_def split: option.splits)
  ultimately show ?thesis using e by blast
qed

text \<open>A non-success response delivered to the mounted widget, then a click on Zunyi.\<close>

theorem fetch_failure_leaves_buttons_inert_witness:
  "\<not> succeeded Not_ok \<and> geojsonRef mounted = None \<and>
   loadGeoJSON True 0 Not_ok mounted = mounted\<lparr>console := [LoadFailed]\<rparr> \<and>
   panel (render (loadGeoJSON True 0 Not_ok mounted)) \<noteq> None \<and>
   handleLocationClick (locations ! 2) (loadGeoJSON True 0 Not_ok mounted) =
     loadGeoJSON True 0 Not_ok mounted"
proof -
  have h: "\<not> succeeded Not_ok" "geojsonRef mounted = None" by (simp_all add: mounted_eq)
  from fetch_failure_leaves_buttons_inert [OF h, of True 0 "locations ! 2"]
  have "render (loadGeoJSON True 0 Not_ok mounted) = render mounted"
    "handleLocationClick (locations ! 2) (loadGeoJSON True 0 Not_ok mounted) =
     loadGeoJSON True 0 Not_ok mounted"
    by blast+
  moreover have "loadGeoJSON True 0 Not_ok mounted = mounted\<lparr>console := [LoadFailed]\<rparr>"
    by (simp add: loadGeoJSON_def loadGeoJSON_try_def mounted_eq)
  moreover have "panel (render mounted) \<noteq> None" by (simp add: render_def mounted_eq)
  ultimately show ?thesis using h by simp
qed

text \<open>
  Claim C1 as stated fails: after a non-success response the map is there but the
  overlay is not, and the click on Zunyi issues no fly-to at all, so the map's target
  is not Zunyi's coordinates and zoom.
\<close>

theorem failed_fetch_click_issues_no_flyTo:
  "mapRef (loadGeoJSON True 0 Not_ok mounted) = Some 0 \<and>
   geojsonRef (loadGeoJSON True 0 Not_ok mounted) = None \<and>
   flyTarget (maps (handleLocationClick (locations ! 2) (loadGeoJSON True 0 Not_ok mounted)) ! 0)
     = None \<and>
   flyTarget (maps (handleLocationClick (locations ! 2) (loadGeoJSON True 0 Not_ok mounted)) ! 0)
     \<noteq> Some (coords (locations ! 2), zoom (locations ! 2), 1.2)"
  by (simp add: loadGeoJSON_def loadGeoJSON_try_def mounted_eq handleLocationClick_def)

subsection \<open>Unmounting while the fetch is outstanding\<close>

text \<open>
  Claim C5 as stated fails: mount, unmount, then let the fetch succeed. The map
  instance is removed and the map reference is null, yet the completion handler
  invokes \<open>addTo\<close> on that instance, whether or not the library throws there; if it
  does not throw, the overlay reference is stored as well.
\<close>

theorem unmounted_fetch_still_adds_overlay:
  "mapRef (unmount 0 mounted) = None \<and>
   removed (maps (unmount 0 mounted) ! 0) \<and>
   addToCalls (maps (unmount 0 mounted) ! 0) = 0 \<and>
   addToCalls (maps (loadGeoJSON True 0 (Geo_document example_features) (unmount 0 mounted)) ! 0) = 1 \<and>
   addToCalls (maps (loadGeoJSON False 0 (Geo_document example_features) (unmount 0 mounted)) ! 0) = 1 \<and>
   geojsonRef (loadGeoJSON False 0 (Geo_document example_features) (unmount 0 mounted)) =
     Some (geoJson example_features)"
  by (simp add: unmount_def map_cleanup_def observer_cleanup_def mounted_eq
        loadGeoJSON_def loadGeoJSON_try_def Let_def)

text \<open>
  Claim C5, as amended. If the widget unmounts while the geometry fetch is
  outstanding, the map instance is removed and the stored map reference cleared. The
  completion handler then runs without checking either reference: when the fetch
  fails it only logs the error; when it succeeds it still invokes \<open>addTo\<close> on the
  removed instance it closed over. In both cases \<open>handleLocationClick\<close> is a no-op
  afterwards, the map reference being null.
\<close>

theorem unmount_leaves_fetch_unguarded:
  assumes "mapRef s = Some a" and "a < length (maps s)"
  shows "mapRef (unmount a s) = None \<and> removed (maps (unmount a s) ! a) \<and>
     (\<not> succeeded outcome \<longrightarrow>
        (\<exists>e. loadGeoJSON strict a outcome (unmount a s) =
                (unmount a s)\<lparr>console := console (unmount a s) @ [e]\<rparr>)) \<and>
     addToCalls (maps (loadGeoJSON strict a (Geo_document geoData) (unmount a s)) ! a) =
       Suc (addToCalls (maps s ! a)) \<and>
     removed (maps (loadGeoJSON strict a (Geo_document geoData) (unmount a s)) ! a) \<and>
     handleLocationClick location (loadGeoJSON strict a outcome (unmount a s)) =
       loadGeoJSON strict a outcome (unmount a s)"
proof (intro conjI impI)
  show u1: "mapRef (unmount a s) = None"
    by (simp add: unmount_def map_cleanup_def observer_cleanup_def)
  show "removed (maps (unmount a s) ! a)"
    using assms(2) by (simp add: unmount_def map_cleanup_def observer_cleanup_def)
  show "\<exists>e. loadGeoJSON strict a outcome (unmount a s) =
                (unmount a s)\<lparr>console := console (unmount a s) @ [e]\<rparr>"
    if "\<not> succeeded outcome"
    using failed_outcome_caught [OF that, of strict a "unmount a s"] by blast
  show "addToCalls (maps (loadGeoJSON strict a (Geo_document geoData) (unmount a s)) ! a) =
       Suc (addToCalls (maps s ! a))"
    using assms(2)
    by (simp add: unmount_def map_cleanup_def observer_cleanup_def
          loadGeoJSON_def loadGeoJSON_try_def Let_def)
  show "removed (maps (loadGeoJSON strict a (Geo_document geoData) (unmount a s)) ! a)"
    using assms(2)
    by (simp add: unmount_def map_cleanup_def observer_cleanup_def
          loadGeoJSON_def loadGeoJSON_try_def Let_def)
  have "mapRef (loadGeoJSON strict a outcome (unmount a s)) = None"
    using u1 by (cases outcome) (simp_all add: loadGeoJSON_def loadGeoJSON_try_def Let_def)
  then show "handleLocationClick location (loadGeoJSON strict a outcome (unmount a s)) =
       loadGeoJSON strict a outcome (unmount a s)"
    by (simp add: handleLocationClick_def)
qed

text \<open>Mount, unmount, then a successful fetch of the example document.\<close>

theorem unmount_leaves_fetch_unguarded_witness:
  "mapRef mounted = Some 0 \<and> mapRef (unmount 0 mounted) = None \<and>
   removed (maps (unmount 0 mounted) ! 0) \<and>
   addToCalls (maps (loadGeoJSON True 0 (Geo_document example_features) (unmount 0 mounted)) ! 0) = 1 \<and>
   handleLocationClick (locations ! 2)
       (loadGeoJSON True 0 (Geo_document example_features) (unmount 0 mounted)) =
     loadGeoJSON True 0 (Geo_document example_features) (unmount 0 mounted)"
proof -
  have h: "mapRef mounted = Some 0" "0 < length (maps mounted)" by (simp_all add: mounted_eq)
  from unmount_leaves_fetch_unguarded
         [OF h, of "Geo_document example_features" True example_features "locations ! 2"]
  show ?thesis using h(1) by (simp add: mounted_eq)
qed

end
